theory Spec2Isabelle
  imports Complex_Main
begin

section \<open>The guidance toolkit of the extractor (include/extractor/guidance/toolkit.hpp)\<close>

text \<open>
  The header is a collection of small inline functions over turn instructions, angles,
  edge geometries and street names. Each function below carries the name it has in the
  header and follows its body statement by statement.

  Conventions of the embedding:
  \<^item> a \<^verbatim>\<open>double\<close> is a \<^typ>\<open>real\<close>. The comparisons of an angle against the constants of
    the header are exact on every finite double; arithmetic is taken without rounding, and
    there is no NaN;
  \<^item> \<^verbatim>\<open>NodeID\<close> and \<^verbatim>\<open>EdgeID\<close> are \<^typ>\<open>nat\<close> (they are only used as keys and indices),
    the fixed-point longitude and latitude of a node are \<^typ>\<open>int\<close>;
  \<^item> a reference parameter that the function writes is returned next to the result;
  \<^item> an index outside a vector, a division by zero and the exception of
    \<^verbatim>\<open>std::string::substr\<close> are the value \<^const>\<open>None\<close>;
  \<^item> the header's \<^verbatim>\<open>BOOST_ASSERT\<close>s vanish in a release build and are not part of the
    functions.
\<close>

subsection \<open>Types declared in turn_instruction.hpp\<close>

text \<open>
  Modelled from the spec: the enumeration \<^verbatim>\<open>DirectionModifier\<close> is declared in
  turn_instruction.hpp, which is not part of the sources at hand. The specification lists
  its eight values with their indices: UTurn(0), SharpRight(1), Right(2), SlightRight(3),
  Straight(4), SlightLeft(5), Left(6), SharpLeft(7). The tables of the header (the mirror
  table, the ideal centers) agree with this numbering.
\<close>

datatype DirectionModifier =
  UTurn | SharpRight | Right | SlightRight | Straight | SlightLeft | Left | SharpLeft

text \<open>
  Modelled from the spec: \<^verbatim>\<open>detail::num_direction_modifiers\<close>, the number of values of the
  enumeration, comes from the same missing header.
\<close>

definition num_direction_modifiers :: nat where
  "num_direction_modifiers = 8"

text \<open>\<^verbatim>\<open>static_cast<std::uint32_t>(modifier)\<close>: the index of an enumerator.\<close>

fun modifier_index :: "DirectionModifier \<Rightarrow> nat" where
  "modifier_index UTurn = 0"
| "modifier_index SharpRight = 1"
| "modifier_index Right = 2"
| "modifier_index SlightRight = 3"
| "modifier_index Straight = 4"
| "modifier_index SlightLeft = 5"
| "modifier_index Left = 6"
| "modifier_index SharpLeft = 7"

text \<open>
  \<^verbatim>\<open>static_cast<DirectionModifier>(n)\<close>. The header only casts values that were reduced
  modulo \<^const>\<open>num_direction_modifiers\<close>, so the last branch stands for index 7.
\<close>

definition modifier_of_index :: "nat \<Rightarrow> DirectionModifier" where
  "modifier_of_index n =
     (if n = 0 then UTurn
      else if n = 1 then SharpRight
      else if n = 2 then Right
      else if n = 3 then SlightRight
      else if n = 4 then Straight
      else if n = 5 then SlightLeft
      else if n = 6 then Left
      else SharpLeft)"

text \<open>
  Modelled from the spec: \<^verbatim>\<open>TurnType\<close> is declared in turn_instruction.hpp as well. The
  header at hand names three of its values (Turn, EndOfRoad, NoTurn); the specification
  says that there are further, non-basic categories such as roundabout entries. They are
  kept apart by a number.
\<close>

datatype TurnType = Turn | EndOfRoad | NoTurn | OtherTurnType nat

text \<open>
  Modelled from the spec: a turn instruction is a pair of a turn type and a direction
  modifier, with the field names the header uses.
\<close>

record TurnInstruction =
  type :: TurnType
  direction_modifier :: DirectionModifier

subsection \<open>Shifting a modifier around the circle\<close>

definition shiftable_ccw :: "bool list" where
  "shiftable_ccw = [False, True, True, False, False, True, True, False]"

definition shiftable_cw :: "bool list" where
  "shiftable_cw = [False, False, True, True, False, False, True, True]"

definition forcedShiftCCW :: "DirectionModifier \<Rightarrow> DirectionModifier" where
  "forcedShiftCCW modifier =
     modifier_of_index ((modifier_index modifier + 1) mod num_direction_modifiers)"

definition shiftCCW :: "DirectionModifier \<Rightarrow> DirectionModifier" where
  "shiftCCW modifier =
     (if shiftable_ccw ! modifier_index modifier then forcedShiftCCW modifier else modifier)"

definition forcedShiftCW :: "DirectionModifier \<Rightarrow> DirectionModifier" where
  "forcedShiftCW modifier =
     modifier_of_index
       ((modifier_index modifier + num_direction_modifiers - 1) mod num_direction_modifiers)"

definition shiftCW :: "DirectionModifier \<Rightarrow> DirectionModifier" where
  "shiftCW modifier =
     (if shiftable_cw ! modifier_index modifier then forcedShiftCW modifier else modifier)"

subsection \<open>Predicates on turn types and conflict resolution\<close>

definition isBasic :: "TurnType \<Rightarrow> bool" where
  "isBasic t = (t = Turn \<or> t = EndOfRoad)"

definition isUturn :: "TurnInstruction \<Rightarrow> bool" where
  "isUturn instruction =
     (isBasic (type instruction) \<and> direction_modifier instruction = UTurn)"

text \<open>
  \<^verbatim>\<open>resolve\<close> writes its first parameter; the embedding returns the flag together with the
  instruction as it is after the call.
\<close>

definition resolve :: "TurnInstruction \<Rightarrow> TurnInstruction \<Rightarrow> bool \<Rightarrow> bool \<times> TurnInstruction" where
  "resolve to_resolve neighbor resolve_cw =
     (let shifted_turn = (if resolve_cw then shiftCW (direction_modifier to_resolve)
                          else shiftCCW (direction_modifier to_resolve))
      in if shifted_turn = direction_modifier neighbor \<or>
            shifted_turn = direction_modifier to_resolve
         then (False, to_resolve)
         else (True, to_resolve\<lparr>direction_modifier := shifted_turn\<rparr>))"

text \<open>
  \<^verbatim>\<open>resolveTransitive\<close> writes \<^verbatim>\<open>first\<close> and \<^verbatim>\<open>second\<close>; the result is the flag, then
  \<^verbatim>\<open>first\<close> and \<^verbatim>\<open>second\<close> after the call.
\<close>

definition resolveTransitive ::
  "TurnInstruction \<Rightarrow> TurnInstruction \<Rightarrow> TurnInstruction \<Rightarrow> bool
     \<Rightarrow> bool \<times> TurnInstruction \<times> TurnInstruction" where
  "resolveTransitive first second third resolve_cw =
     (case resolve second third resolve_cw of
        (True, second') \<Rightarrow>
          (True,
           first\<lparr>direction_modifier :=
             (if resolve_cw then shiftCW (direction_modifier first)
              else shiftCCW (direction_modifier first))\<rparr>,
           second')
      | (False, second') \<Rightarrow> (False, first, second'))"

definition isDistinct :: "DirectionModifier \<Rightarrow> DirectionModifier \<Rightarrow> bool" where
  "isDistinct first second =
     (if (modifier_index first + 1) mod num_direction_modifiers = modifier_index second
      then False
      else if (modifier_index second + 1) mod num_direction_modifiers = modifier_index first
      then False
      else True)"

subsection \<open>Angles: deviation, confidence and classification\<close>

definition angularDeviation :: "real \<Rightarrow> real \<Rightarrow> real" where
  "angularDeviation angle from =
     (let deviation = \<bar>angle - from\<bar> in min (360 - deviation) deviation)"

definition center :: "real list" where
  "center = [0, 45, 90, 135, 180, 225, 270, 315]"

definition getAngularPenalty :: "real \<Rightarrow> DirectionModifier \<Rightarrow> real" where
  "getAngularPenalty angle modifier = angularDeviation (center ! modifier_index modifier) angle"

definition deviations :: "real list" where
  "deviations = [0, 45, 50, 30, 20, 30, 50, 45]"

text \<open>The quotient of two doubles; a zero divisor is reported instead of a quotient.\<close>

definition divide_checked :: "real \<Rightarrow> real \<Rightarrow> real option" where
  "divide_checked x y = (if y = 0 then None else Some (x / y))"

text \<open>
  The return statement of \<^verbatim>\<open>getTurnConfidence\<close> divides \<^verbatim>\<open>difference\<close> by
  \<^verbatim>\<open>max_deviation\<close> twice and multiplies the two quotients.
\<close>

definition getTurnConfidence :: "real \<Rightarrow> TurnInstruction \<Rightarrow> real option" where
  "getTurnConfidence angle instruction =
     (if \<not> isBasic (type instruction) \<or> direction_modifier instruction = UTurn
      then Some 1
      else
        let difference = getAngularPenalty angle (direction_modifier instruction);
            max_deviation = deviations ! modifier_index (direction_modifier instruction)
        in case divide_checked difference max_deviation of
             None \<Rightarrow> None
           | Some q1 \<Rightarrow>
               (case divide_checked difference max_deviation of
                  None \<Rightarrow> None
                | Some q2 \<Rightarrow> Some (1 - q1 * q2)))"

definition getTurnDirection :: "real \<Rightarrow> DirectionModifier" where
  "getTurnDirection angle =
     (if angle > 0 \<and> angle < 60 then SharpRight
      else if angle \<ge> 60 \<and> angle < 140 then Right
      else if angle \<ge> 140 \<and> angle < 170 then SlightRight
      else if angle \<ge> 165 \<and> angle \<le> 195 then Straight
      else if angle > 190 \<and> angle \<le> 220 then SlightLeft
      else if angle > 220 \<and> angle \<le> 300 then Left
      else if angle > 300 \<and> angle < 360 then SharpLeft
      else UTurn)"

subsection \<open>The representative coordinate of an edge\<close>

text \<open>
  Modelled from the spec: the node records (query_node.hpp), the coordinates
  (coordinate.hpp) and the container of compressed geometries
  (compressed_edge_container.hpp) are declared outside the sources at hand. A node carries
  its longitude and latitude; a coordinate is a longitude and a latitude; the container
  answers whether an edge has a stored geometry and hands out its bucket, an ordered
  sequence of entries that name a node each.
\<close>

record QueryNode =
  lon :: int
  lat :: int

record Coordinate =
  lon :: int
  lat :: int

record CompressedEdge =
  node_id :: nat

type_synonym CompressedEdgeContainer = "nat \<Rightarrow> CompressedEdge list option"

definition HasEntryForID :: "CompressedEdgeContainer \<Rightarrow> nat \<Rightarrow> bool" where
  "HasEntryForID compressed_geometries edge_id = (compressed_geometries edge_id \<noteq> None)"

definition GetBucketReference :: "CompressedEdgeContainer \<Rightarrow> nat \<Rightarrow> CompressedEdge list option" where
  "GetBucketReference compressed_geometries edge_id = compressed_geometries edge_id"

definition DESIRED_SEGMENT_LENGTH :: real where
  "DESIRED_SEGMENT_LENGTH = 10"

definition extractCoordinateFromNode :: "QueryNode \<Rightarrow> Coordinate" where
  "extractCoordinateFromNode node = \<lparr>lon = QueryNode.lon node, lat = QueryNode.lat node\<rparr>"

text \<open>\<^verbatim>\<open>query_nodes[id]\<close>, with the read outside the vector made explicit.\<close>

definition node_at :: "QueryNode list \<Rightarrow> nat \<Rightarrow> QueryNode option" where
  "node_at query_nodes n = (if n < length query_nodes then Some (query_nodes ! n) else None)"

definition getFactor :: "real \<Rightarrow> real \<Rightarrow> real option" where
  "getFactor first_distance second_distance =
     (let segment_length = second_distance - first_distance;
          missing_distance = DESIRED_SEGMENT_LENGTH - first_distance
      in case divide_checked missing_distance segment_length of
           None \<Rightarrow> None
         | Some q \<Rightarrow> Some (max 0 (min q 1)))"

text \<open>
  The loop of \<^verbatim>\<open>getCoordinateFromCompressedRange\<close> over the entries of the bucket. The
  great-circle distance and the linear interpolation come from
  coordinate_calculation.hpp, outside the sources at hand, and are parameters. The loop
  either returns a coordinate (\<^const>\<open>Inl\<close>) or runs to the end and leaves the current
  coordinate and the distance walked so far (\<^const>\<open>Inr\<close>).
\<close>

fun compressed_range_loop ::
  "(Coordinate \<Rightarrow> Coordinate \<Rightarrow> real) \<Rightarrow> (real \<Rightarrow> Coordinate \<Rightarrow> Coordinate \<Rightarrow> Coordinate)
     \<Rightarrow> QueryNode list \<Rightarrow> Coordinate \<Rightarrow> real \<Rightarrow> CompressedEdge list
     \<Rightarrow> (Coordinate + Coordinate \<times> real) option" where
  "compressed_range_loop haversineDistance interpolateLinear query_nodes
       current_coordinate distance_to_current_coordinate [] =
     Some (Inr (current_coordinate, distance_to_current_coordinate))"
| "compressed_range_loop haversineDistance interpolateLinear query_nodes
       current_coordinate distance_to_current_coordinate (e # es) =
     (case node_at query_nodes (node_id e) of
        None \<Rightarrow> None
      | Some node \<Rightarrow>
          let next_coordinate = extractCoordinateFromNode node;
              distance_to_next_coordinate =
                distance_to_current_coordinate +
                haversineDistance current_coordinate next_coordinate
          in if distance_to_next_coordinate \<ge> DESIRED_SEGMENT_LENGTH
             then (case getFactor distance_to_current_coordinate distance_to_next_coordinate of
                     None \<Rightarrow> None
                   | Some f \<Rightarrow> Some (Inl (interpolateLinear f current_coordinate next_coordinate)))
             else compressed_range_loop haversineDistance interpolateLinear query_nodes
                    next_coordinate distance_to_next_coordinate es)"

definition getCoordinateFromCompressedRange ::
  "(Coordinate \<Rightarrow> Coordinate \<Rightarrow> real) \<Rightarrow> (real \<Rightarrow> Coordinate \<Rightarrow> Coordinate \<Rightarrow> Coordinate)
     \<Rightarrow> Coordinate \<Rightarrow> CompressedEdge list \<Rightarrow> Coordinate \<Rightarrow> QueryNode list
     \<Rightarrow> Coordinate option" where
  "getCoordinateFromCompressedRange haversineDistance interpolateLinear
       current_coordinate compressed_geometry final_coordinate query_nodes =
     (case compressed_range_loop haversineDistance interpolateLinear query_nodes
             current_coordinate 0 compressed_geometry of
        None \<Rightarrow> None
      | Some (Inl c) \<Rightarrow> Some c
      | Some (Inr (current, distance_to_current_coordinate)) \<Rightarrow>
          let distance_to_next_coordinate =
                distance_to_current_coordinate + haversineDistance current final_coordinate
          in if distance_to_current_coordinate < DESIRED_SEGMENT_LENGTH \<and>
                distance_to_next_coordinate \<ge> DESIRED_SEGMENT_LENGTH
             then (case getFactor distance_to_current_coordinate distance_to_next_coordinate of
                     None \<Rightarrow> None
                   | Some f \<Rightarrow> Some (interpolateLinear f current final_coordinate))
             else Some final_coordinate)"

definition getRepresentativeCoordinate ::
  "(Coordinate \<Rightarrow> Coordinate \<Rightarrow> real) \<Rightarrow> (real \<Rightarrow> Coordinate \<Rightarrow> Coordinate \<Rightarrow> Coordinate)
     \<Rightarrow> nat \<Rightarrow> nat \<Rightarrow> nat \<Rightarrow> bool \<Rightarrow> CompressedEdgeContainer \<Rightarrow> QueryNode list
     \<Rightarrow> Coordinate option" where
  "getRepresentativeCoordinate haversineDistance interpolateLinear
       from_node to_node via_edge_id traverse_in_reverse compressed_geometries query_nodes =
     (if \<not> HasEntryForID compressed_geometries via_edge_id
      then map_option extractCoordinateFromNode
             (if traverse_in_reverse then node_at query_nodes from_node
              else node_at query_nodes to_node)
      else
        (case GetBucketReference compressed_geometries via_edge_id of
           None \<Rightarrow> None
         | Some geometry \<Rightarrow>
             (let base_node_id = (if traverse_in_reverse then to_node else from_node);
                  final_node = (if traverse_in_reverse then from_node else to_node)
              in (case node_at query_nodes base_node_id of
                    None \<Rightarrow> None
                  | Some base \<Rightarrow>
                      (case node_at query_nodes final_node of
                         None \<Rightarrow> None
                       | Some final \<Rightarrow>
                           getCoordinateFromCompressedRange haversineDistance interpolateLinear
                             (extractCoordinateFromNode base)
                             (if traverse_in_reverse then rev geometry else geometry)
                             (extractCoordinateFromNode final) query_nodes)))))"

subsection \<open>Street names and references\<close>

text \<open>
  \<^verbatim>\<open>std::string::npos\<close> is the largest value of \<^verbatim>\<open>size_t\<close>, taken as 64 bits wide;
  positions and lengths are computed modulo \<open>2 ^ 64\<close> where the header subtracts them.
\<close>

definition npos :: nat where
  "npos = 2 ^ 64 - 1"

definition size_t_minus :: "nat \<Rightarrow> nat \<Rightarrow> nat" where
  "size_t_minus a b = nat ((int a - int b) mod 2 ^ 64)"

fun find_first_of :: "string \<Rightarrow> char \<Rightarrow> nat" where
  "find_first_of [] c = npos"
| "find_first_of (x # xs) c =
     (if x = c then 0
      else let r = find_first_of xs c in if r = npos then npos else r + 1)"

text \<open>\<^verbatim>\<open>s.substr(pos, count)\<close> throws \<^verbatim>\<open>std::out_of_range\<close> when \<^verbatim>\<open>pos > s.size()\<close>.\<close>

definition substr :: "string \<Rightarrow> nat \<Rightarrow> nat \<Rightarrow> string option" where
  "substr s pos count = (if pos > length s then None else Some (take count (drop pos s)))"

fun starts_with :: "string \<Rightarrow> string \<Rightarrow> bool" where
  "starts_with s [] = True"
| "starts_with [] (y # ys) = False"
| "starts_with (x # xs) (y # ys) = (x = y \<and> starts_with xs ys)"

text \<open>\<^verbatim>\<open>s.find(str)\<close>: the position of the first occurrence of \<^verbatim>\<open>str\<close> in \<^verbatim>\<open>s\<close>, or npos.\<close>

fun find_str :: "string \<Rightarrow> string \<Rightarrow> nat" where
  "find_str [] str = (if str = [] then 0 else npos)"
| "find_str (x # xs) str =
     (if starts_with (x # xs) str then 0
      else let r = find_str xs str in if r = npos then npos else r + 1)"

text \<open>
  The lambda \<^verbatim>\<open>split\<close> writes \<^verbatim>\<open>out_name\<close> and \<^verbatim>\<open>out_ref\<close>, which are empty strings when it
  is called; the embedding returns the pair (name, reference).
\<close>

definition split_name :: "string \<Rightarrow> (string \<times> string) option" where
  "split_name name =
     (let ref_begin = find_first_of name CHR ''(''
      in if ref_begin \<noteq> npos
         then
           (case (if ref_begin \<noteq> 0 then substr name 0 (size_t_minus ref_begin 1)
                  else Some []) of
              None \<Rightarrow> None
            | Some out_name \<Rightarrow>
                let ref_end = find_first_of name CHR '')''
                in (case substr name ((ref_begin + 1) mod 2 ^ 64)
                           (size_t_minus (size_t_minus ref_end ref_begin) 1) of
                      None \<Rightarrow> None
                    | Some out_ref \<Rightarrow> Some (out_name, out_ref)))
         else Some (name, []))"

definition requiresNameAnnounced :: "string \<Rightarrow> string \<Rightarrow> bool option" where
  "requiresNameAnnounced from to =
     (case split_name from of
        None \<Rightarrow> None
      | Some (from_name, from_ref) \<Rightarrow>
          (case split_name to of
             None \<Rightarrow> None
           | Some (to_name, to_ref) \<Rightarrow>
               let names_are_empty = (from_name = [] \<and> to_name = []);
                   names_are_equal = (from_name = to_name);
                   name_is_removed = (from_name \<noteq> [] \<and> to_name = []);
                   refs_are_empty = (from_ref = [] \<and> to_ref = []);
                   ref_is_contained =
                     (from_ref = [] \<or> to_ref = [] \<or>
                      (find_str from_ref to_ref \<noteq> npos \<or> find_str to_ref from_ref \<noteq> npos));
                   ref_is_removed = (from_ref \<noteq> [] \<and> to_ref = []);
                   obvious_change =
                     ((names_are_empty \<and> refs_are_empty) \<or> (names_are_equal \<and> ref_is_contained) \<or>
                      (names_are_equal \<and> refs_are_empty) \<or> name_is_removed \<or> ref_is_removed)
               in Some (\<not> obvious_change)))"

subsection \<open>The tables of the specification\<close>

text \<open>
  The specification gives the classification of an angle as a sequence of bands, tried in
  order, and the confidence through an ideal center and a tolerance per modifier. These
  definitions follow its words; the theorems compare them with the functions of the header.
\<close>

definition classification_bands :: "((real \<Rightarrow> bool) \<times> DirectionModifier) list" where
  "classification_bands =
     [(\<lambda>a. 0 < a \<and> a < 60, SharpRight),
      (\<lambda>a. 60 \<le> a \<and> a < 140, Right),
      (\<lambda>a. 140 \<le> a \<and> a < 170, SlightRight),
      (\<lambda>a. 165 \<le> a \<and> a \<le> 195, Straight),
      (\<lambda>a. 190 < a \<and> a \<le> 220, SlightLeft),
      (\<lambda>a. 220 < a \<and> a \<le> 300, Left),
      (\<lambda>a. 300 < a \<and> a < 360, SharpLeft)]"

fun first_matching_band :: "((real \<Rightarrow> bool) \<times> DirectionModifier) list \<Rightarrow> real \<Rightarrow> DirectionModifier" where
  "first_matching_band [] a = UTurn"
| "first_matching_band ((band, m) # bands) a =
     (if band a then m else first_matching_band bands a)"

fun ideal_center :: "DirectionModifier \<Rightarrow> real" where
  "ideal_center UTurn = 0"
| "ideal_center SharpRight = 45"
| "ideal_center Right = 90"
| "ideal_center SlightRight = 135"
| "ideal_center Straight = 180"
| "ideal_center SlightLeft = 225"
| "ideal_center Left = 270"
| "ideal_center SharpLeft = 315"

fun tolerance :: "DirectionModifier \<Rightarrow> real" where
  "tolerance UTurn = 0"
| "tolerance SharpRight = 45"
| "tolerance Right = 50"
| "tolerance SlightRight = 30"
| "tolerance Straight = 20"
| "tolerance SlightLeft = 30"
| "tolerance Left = 50"
| "tolerance SharpLeft = 45"

text \<open>A bearing, in the words of the glossary: a direction in degrees, 0 to 360.\<close>

definition is_bearing :: "real \<Rightarrow> bool" where
  "is_bearing a = (0 \<le> a \<and> a \<le> 360)"

section \<open>Properties\<close>

subsection \<open>Indices and shifts\<close>

lemma modifier_index_less: "modifier_index m < 8"
  by (cases m) simp_all

lemma modifier_of_index_inverse: "modifier_of_index (modifier_index m) = m"
  by (cases m) (simp_all add: modifier_of_index_def)

lemma modifier_index_inverse: "n < 8 \<Longrightarrow> modifier_index (modifier_of_index n) = n"
  by (simp add: modifier_of_index_def)

lemma modifier_index_forcedShiftCW:
  "modifier_index (forcedShiftCW m) = (modifier_index m + 7) mod 8"
  by (cases m) (simp_all add: forcedShiftCW_def num_direction_modifiers_def modifier_of_index_def)

lemma modifier_index_forcedShiftCCW:
  "modifier_index (forcedShiftCCW m) = (modifier_index m + 1) mod 8"
  by (cases m) (simp_all add: forcedShiftCCW_def num_direction_modifiers_def modifier_of_index_def)

lemma shiftCW_values:
  "shiftCW UTurn = UTurn" "shiftCW SharpRight = SharpRight" "shiftCW Right = SharpRight"
  "shiftCW SlightRight = Right" "shiftCW Straight = Straight" "shiftCW SlightLeft = SlightLeft"
  "shiftCW Left = SlightLeft" "shiftCW SharpLeft = Left"
  by (simp_all add: shiftCW_def shiftable_cw_def forcedShiftCW_def num_direction_modifiers_def
      modifier_of_index_def)

lemma shiftCCW_values:
  "shiftCCW UTurn = UTurn" "shiftCCW SharpRight = Right" "shiftCCW Right = SlightRight"
  "shiftCCW SlightRight = SlightRight" "shiftCCW Straight = Straight" "shiftCCW SlightLeft = Left"
  "shiftCCW Left = SharpLeft" "shiftCCW SharpLeft = SharpLeft"
  by (simp_all add: shiftCCW_def shiftable_ccw_def forcedShiftCCW_def num_direction_modifiers_def
      modifier_of_index_def)

lemma resolve_cases:
  "resolve c n cw =
     (if (if cw then shiftCW (direction_modifier c) else shiftCCW (direction_modifier c)) = direction_modifier n \<or>
         (if cw then shiftCW (direction_modifier c) else shiftCCW (direction_modifier c)) = direction_modifier c
      then (False, c)
      else (True, c\<lparr>direction_modifier :=
              (if cw then shiftCW (direction_modifier c) else shiftCCW (direction_modifier c))\<rparr>))"
  by (simp add: resolve_def Let_def)

subsection \<open>Transitive resolution\<close>

text \<open>
  With \<^verbatim>\<open>second\<close> a right turn next to a U-turn, the clockwise resolution of \<^verbatim>\<open>second\<close>
  succeeds. \<^verbatim>\<open>first\<close> is a straight instruction, which is not shiftable: it keeps its
  modifier although the call reports success, where one forced clockwise step would have
  made it a slight right.
\<close>

theorem resolveTransitive_forced_shift_counterexample:
  "fst (resolve \<lparr>type = Turn, direction_modifier = Right\<rparr>
               \<lparr>type = Turn, direction_modifier = UTurn\<rparr> True) \<and>
   resolveTransitive
     \<lparr>type = Turn, direction_modifier = Straight\<rparr>
     \<lparr>type = Turn, direction_modifier = Right\<rparr>
     \<lparr>type = Turn, direction_modifier = UTurn\<rparr> True =
   (True, \<lparr>type = Turn, direction_modifier = Straight\<rparr>,
          \<lparr>type = Turn, direction_modifier = SharpRight\<rparr>) \<and>
   forcedShiftCW Straight = SlightRight \<and>
   direction_modifier
     (fst (snd (resolveTransitive
        \<lparr>type = Turn, direction_modifier = Straight\<rparr>
        \<lparr>type = Turn, direction_modifier = Right\<rparr>
        \<lparr>type = Turn, direction_modifier = UTurn\<rparr> True))) \<noteq> forcedShiftCW Straight"
  by (simp add: resolveTransitive_def resolve_cases shiftCW_values forcedShiftCW_def
      num_direction_modifiers_def modifier_of_index_def)

text \<open>
  Claim C1, as amended. \<^verbatim>\<open>resolveTransitive\<close> resolves \<^verbatim>\<open>second\<close> against \<^verbatim>\<open>third\<close>.
  When that succeeds it returns true, \<^verbatim>\<open>second\<close> carries its shifted modifier, and the
  modifier of \<^verbatim>\<open>first\<close> is replaced by its guarded shift in the same rotation
  (\<^verbatim>\<open>shiftCW\<close> or \<^verbatim>\<open>shiftCCW\<close>, not the forced variants): one position around the circle
  of eight (index minus one clockwise, index plus one counter-clockwise, modulo 8) when the
  modifier of \<^verbatim>\<open>first\<close> is shiftable in that rotation, and no move at all when it is not.
  When the resolution of \<^verbatim>\<open>second\<close> fails, the function returns false and both
  \<^verbatim>\<open>first\<close> and \<^verbatim>\<open>second\<close> are as before.
\<close>

theorem resolveTransitive_guarded_shift:
  "resolveTransitive first second third resolve_cw =
     (if fst (resolve second third resolve_cw)
      then (True,
            first\<lparr>direction_modifier :=
              (if resolve_cw then shiftCW (direction_modifier first)
               else shiftCCW (direction_modifier first))\<rparr>,
            snd (resolve second third resolve_cw))
      else (False, first, second)) \<and>
   shiftCW (direction_modifier first) =
     (if shiftable_cw ! modifier_index (direction_modifier first)
      then modifier_of_index ((modifier_index (direction_modifier first) + 7) mod 8)
      else direction_modifier first) \<and>
   shiftCCW (direction_modifier first) =
     (if shiftable_ccw ! modifier_index (direction_modifier first)
      then modifier_of_index ((modifier_index (direction_modifier first) + 1) mod 8)
      else direction_modifier first)"
proof (intro conjI)
  show "resolveTransitive first second third resolve_cw =
     (if fst (resolve second third resolve_cw)
      then (True,
            first\<lparr>direction_modifier :=
              (if resolve_cw then shiftCW (direction_modifier first)
               else shiftCCW (direction_modifier first))\<rparr>,
            snd (resolve second third resolve_cw))
      else (False, first, second))"
    by (simp add: resolveTransitive_def resolve_cases split: prod.splits bool.splits)
next
  show "shiftCW (direction_modifier first) =
     (if shiftable_cw ! modifier_index (direction_modifier first)
      then modifier_of_index ((modifier_index (direction_modifier first) + 7) mod 8)
      else direction_modifier first)"
    by (simp add: shiftCW_def forcedShiftCW_def num_direction_modifiers_def add.commute)
next
  show "shiftCCW (direction_modifier first) =
     (if shiftable_ccw ! modifier_index (direction_modifier first)
      then modifier_of_index ((modifier_index (direction_modifier first) + 1) mod 8)
      else direction_modifier first)"
    by (simp add: shiftCCW_def forcedShiftCCW_def num_direction_modifiers_def)
qed

theorem resolveTransitive_guarded_shift_witness:
  "resolveTransitive
     \<lparr>type = Turn, direction_modifier = Right\<rparr>
     \<lparr>type = Turn, direction_modifier = Right\<rparr>
     \<lparr>type = Turn, direction_modifier = Right\<rparr> True =
   (True, \<lparr>type = Turn, direction_modifier = SharpRight\<rparr>,
          \<lparr>type = Turn, direction_modifier = SharpRight\<rparr>) \<and>
   resolveTransitive
     \<lparr>type = Turn, direction_modifier = Right\<rparr>
     \<lparr>type = Turn, direction_modifier = Straight\<rparr>
     \<lparr>type = Turn, direction_modifier = Straight\<rparr> True =
   (False, \<lparr>type = Turn, direction_modifier = Right\<rparr>,
           \<lparr>type = Turn, direction_modifier = Straight\<rparr>)"
  using resolveTransitive_guarded_shift
      [of "\<lparr>type = Turn, direction_modifier = Right\<rparr>"
          "\<lparr>type = Turn, direction_modifier = Right\<rparr>"
          "\<lparr>type = Turn, direction_modifier = Right\<rparr>" True]
    resolveTransitive_guarded_shift
      [of "\<lparr>type = Turn, direction_modifier = Right\<rparr>"
          "\<lparr>type = Turn, direction_modifier = Straight\<rparr>"
          "\<lparr>type = Turn, direction_modifier = Straight\<rparr>" True]
  by (simp add: resolve_cases shiftCW_values)

subsection \<open>The clockwise shift\<close>

text \<open>
  The clockwise shift of a right turn is the sharp right turn, the previous index of the
  enumeration, and not the slight right turn.
\<close>

theorem shiftCW_Right_counterexample:
  "shiftCW Right = SharpRight \<and> shiftCW Right \<noteq> SlightRight"
  by (simp add: shiftCW_values)

text \<open>
  Claim C2, as amended. In the order UTurn(0), SharpRight(1), Right(2), SlightRight(3),
  Straight(4), SlightLeft(5), Left(6), SharpLeft(7) the clockwise shift moves a
  clockwise-shiftable modifier one position back, to the previous index:
  \<^verbatim>\<open>shiftCW(Right)\<close> is SharpRight. A modifier that is not clockwise-shiftable is returned
  as it is; in particular \<^verbatim>\<open>shiftCW(Straight)\<close> is Straight.
\<close>

theorem shiftCW_moves_back_one_index:
  "shiftCW Right = SharpRight \<and>
   shiftCW Straight = Straight \<and>
   (shiftable_cw ! modifier_index m \<longrightarrow>
      modifier_index (shiftCW m) = (modifier_index m + 7) mod 8 \<and>
      modifier_index (shiftCW m) + 1 = modifier_index m) \<and>
   (\<not> shiftable_cw ! modifier_index m \<longrightarrow> shiftCW m = m)"
  by (cases m) (simp_all add: shiftCW_values shiftable_cw_def)

theorem shiftCW_moves_back_one_index_witness:
  "shiftable_cw ! modifier_index SharpLeft \<and>
   modifier_index (shiftCW SharpLeft) = 6 \<and>
   \<not> shiftable_cw ! modifier_index SharpRight \<and>
   shiftCW SharpRight = SharpRight"
  using shiftCW_moves_back_one_index [of SharpLeft] shiftCW_moves_back_one_index [of SharpRight]
  by (simp add: shiftable_cw_def)

subsection \<open>Classification of an angle\<close>

text \<open>
  The angle 192 lies in the overlap of the bands of Straight and SlightLeft. The band of
  Straight is tested first, so the angle is classified as Straight.
\<close>

theorem getTurnDirection_overlap_counterexample:
  "(190::real) < 192 \<and> (192::real) \<le> 195 \<and>
   getTurnDirection 192 = Straight \<and> getTurnDirection 192 \<noteq> SlightLeft"
  by (simp add: getTurnDirection_def)

text \<open>
  Claim C3, as amended. \<^verbatim>\<open>getTurnDirection\<close> tries the bands of the specification in
  their order and the first band that holds decides; no band gives UTurn. Hence an angle
  in [165, 170) is a SlightRight (the band of SlightRight comes before that of Straight),
  and an angle in (190, 195] is Straight (the band of Straight comes before that of
  SlightLeft). The angles 180, 0, 90, 270 and 45 are classified as Straight, UTurn, Right,
  Left and SharpRight.
\<close>

theorem getTurnDirection_first_band_wins:
  "getTurnDirection angle = first_matching_band classification_bands angle \<and>
   (165 \<le> a \<and> a < 170 \<longrightarrow> getTurnDirection a = SlightRight) \<and>
   (190 < b \<and> b \<le> 195 \<longrightarrow> getTurnDirection b = Straight) \<and>
   getTurnDirection 180 = Straight \<and>
   getTurnDirection 0 = UTurn \<and>
   getTurnDirection 90 = Right \<and>
   getTurnDirection 270 = Left \<and>
   getTurnDirection 45 = SharpRight"
  by (simp add: getTurnDirection_def classification_bands_def)

theorem getTurnDirection_first_band_wins_witness:
  "(165::real) \<le> 167 \<and> (167::real) < 170 \<and> getTurnDirection 167 = SlightRight \<and>
   (190::real) < 193 \<and> (193::real) \<le> 195 \<and> getTurnDirection 193 = Straight \<and>
   getTurnDirection 200 = first_matching_band classification_bands 200"
  using getTurnDirection_first_band_wins [of 200 167 193]
  by simp

subsection \<open>Confidence of a turn\<close>

lemma angularDeviation_commute: "angularDeviation a b = angularDeviation b a"
  by (simp add: angularDeviation_def abs_minus_commute)

lemma center_ideal_center: "center ! modifier_index m = ideal_center m"
  by (cases m) (simp_all add: center_def)

lemma deviations_tolerance: "deviations ! modifier_index m = tolerance m"
  by (cases m) (simp_all add: deviations_def)

lemma deviations_positive: "m \<noteq> UTurn \<Longrightarrow> 0 < deviations ! modifier_index m"
  by (cases m) (simp_all add: deviations_def)

text \<open>
  Claim C4. For every angle and every instruction, \<^verbatim>\<open>getTurnConfidence\<close> returns 1
  when the turn type of the instruction is not basic or its modifier is UTurn, whatever
  the angle. Otherwise it returns one minus the square of penalty over tolerance, where the
  penalty is the angular deviation between the angle and the ideal center of the modifier
  (0, 45, 90, 135, 180, 225, 270, 315 by index) and the tolerance is the entry of the
  modifier in the table UTurn 0, SharpRight 45, Right 50, SlightRight 30, Straight 20,
  SlightLeft 30, Left 50, SharpLeft 45.
\<close>

theorem getTurnConfidence_spec:
  "getTurnConfidence angle instruction =
     (if \<not> isBasic (type instruction) \<or> direction_modifier instruction = UTurn
      then Some 1
      else Some (1 - (angularDeviation angle (ideal_center (direction_modifier instruction)) /
                      tolerance (direction_modifier instruction))\<^sup>2))"
proof (cases "\<not> isBasic (type instruction) \<or> direction_modifier instruction = UTurn")
  case True
  then show ?thesis
    by (simp add: getTurnConfidence_def)
next
  case False
  then have pos: "tolerance (direction_modifier instruction) \<noteq> 0"
    using deviations_positive [of "direction_modifier instruction"]
    by (simp add: deviations_tolerance)
  have pen: "getAngularPenalty angle (direction_modifier instruction) =
      angularDeviation angle (ideal_center (direction_modifier instruction))"
    by (simp add: getAngularPenalty_def center_ideal_center angularDeviation_commute)
  from False pos show ?thesis
    by (simp add: getTurnConfidence_def Let_def pen deviations_tolerance divide_checked_def
        power2_eq_square)
qed

theorem getTurnConfidence_spec_witness:
  "getTurnConfidence 100 \<lparr>type = Turn, direction_modifier = Right\<rparr> = Some (24 / 25) \<and>
   getTurnConfidence 100 \<lparr>type = NoTurn, direction_modifier = Right\<rparr> = Some 1 \<and>
   getTurnConfidence 100 \<lparr>type = Turn, direction_modifier = UTurn\<rparr> = Some 1"
  using getTurnConfidence_spec [of 100 "\<lparr>type = Turn, direction_modifier = Right\<rparr>"]
    getTurnConfidence_spec [of 100 "\<lparr>type = NoTurn, direction_modifier = Right\<rparr>"]
    getTurnConfidence_spec [of 100 "\<lparr>type = Turn, direction_modifier = UTurn\<rparr>"]
  by (simp add: isBasic_def angularDeviation_def power2_eq_square)

subsection \<open>Angular deviation\<close>

text \<open>
  Claim C5. The deviation of a bearing from itself is 0, the deviation is symmetric in
  its two arguments, and for bearings \<open>a\<close> and \<open>b\<close> (degrees from 0 to 360, as the
  glossary has it) the deviation lies between 0 and 180. The first two parts and the upper
  bound hold for all arguments; the lower bound needs the two arguments to be at most a
  full turn apart, which bearings are.
\<close>

theorem angularDeviation_properties:
  "angularDeviation c c = 0 \<and>
   angularDeviation a b = angularDeviation b a \<and>
   angularDeviation a b \<le> 180 \<and>
   (is_bearing a \<and> is_bearing b \<longrightarrow> 0 \<le> angularDeviation a b)"
proof (intro conjI impI)
  show "angularDeviation c c = 0"
    by (simp add: angularDeviation_def)
  show "angularDeviation a b = angularDeviation b a"
    by (rule angularDeviation_commute)
  show "angularDeviation a b \<le> 180"
    by (simp add: angularDeviation_def Let_def min_def)
next
  assume "is_bearing a \<and> is_bearing b"
  then have "\<bar>a - b\<bar> \<le> 360"
    by (simp add: is_bearing_def) linarith
  then show "0 \<le> angularDeviation a b"
    by (simp add: angularDeviation_def Let_def)
qed

theorem angularDeviation_properties_witness:
  "is_bearing 10 \<and> is_bearing 350 \<and> angularDeviation 10 350 = 20 \<and>
   angularDeviation 350 10 = 20 \<and> angularDeviation 350 350 = 0"
  using angularDeviation_properties [of 350 10 350]
  by (simp add: is_bearing_def angularDeviation_def)

text \<open>
  Arguments that are more than a full turn apart are outside the claim; there the second
  operand of the minimum is negative.
\<close>

lemma angularDeviation_beyond_full_turn: "angularDeviation 0 720 = - 360"
  by (simp add: angularDeviation_def)

subsection \<open>Resolution of a candidate against its neighbor\<close>

lemma shiftCW_fixed: "shiftCW m = m \<longleftrightarrow> \<not> shiftable_cw ! modifier_index m"
  by (cases m) (simp_all add: shiftCW_values shiftable_cw_def)

lemma shiftCCW_fixed: "shiftCCW m = m \<longleftrightarrow> \<not> shiftable_ccw ! modifier_index m"
  by (cases m) (simp_all add: shiftCCW_values shiftable_ccw_def)

text \<open>
  Claim C6. Let \<open>shifted\<close> be the one-step shift of the candidate's modifier in the
  requested rotation. \<^verbatim>\<open>resolve\<close> returns false exactly when \<open>shifted\<close> equals the
  neighbor's modifier or the candidate's own modifier, and exactly then the candidate is
  unchanged; in every other case the candidate's modifier becomes \<open>shifted\<close> and the
  result is true. The shift leaves the modifier as it is exactly when the modifier is not
  shiftable in that rotation.
\<close>

theorem resolve_spec:
  assumes "shifted = (if resolve_cw then shiftCW (direction_modifier candidate)
                      else shiftCCW (direction_modifier candidate))"
  shows "(fst (resolve candidate neighbor resolve_cw) = False \<longleftrightarrow>
            shifted = direction_modifier neighbor \<or> shifted = direction_modifier candidate) \<and>
         (fst (resolve candidate neighbor resolve_cw) = False \<longleftrightarrow>
            snd (resolve candidate neighbor resolve_cw) = candidate) \<and>
         resolve candidate neighbor resolve_cw =
           (if shifted = direction_modifier neighbor \<or> shifted = direction_modifier candidate
            then (False, candidate)
            else (True, candidate\<lparr>direction_modifier := shifted\<rparr>)) \<and>
         (shifted = direction_modifier candidate \<longleftrightarrow>
            \<not> (if resolve_cw then shiftable_cw else shiftable_ccw) !
                 modifier_index (direction_modifier candidate))"
proof -
  have r: "resolve candidate neighbor resolve_cw =
           (if shifted = direction_modifier neighbor \<or> shifted = direction_modifier candidate
            then (False, candidate)
            else (True, candidate\<lparr>direction_modifier := shifted\<rparr>))"
    unfolding assms by (rule resolve_cases)
  have changed: "shifted \<noteq> direction_modifier candidate \<Longrightarrow>
      candidate\<lparr>direction_modifier := shifted\<rparr> \<noteq> candidate"
  proof
    assume "shifted \<noteq> direction_modifier candidate"
      and "candidate\<lparr>direction_modifier := shifted\<rparr> = candidate"
    from this(2) have "direction_modifier (candidate\<lparr>direction_modifier := shifted\<rparr>) =
        direction_modifier candidate"
      by simp
    with \<open>shifted \<noteq> direction_modifier candidate\<close> show False
      by simp
  qed
  have noop: "shifted = direction_modifier candidate \<longleftrightarrow>
      \<not> (if resolve_cw then shiftable_cw else shiftable_ccw) !
           modifier_index (direction_modifier candidate)"
    unfolding assms by (simp add: shiftCW_fixed shiftCCW_fixed)
  from r changed noop show ?thesis
    by (auto simp del: TurnInstruction.update_convs)
qed

theorem resolve_spec_witness:
  "resolve \<lparr>type = Turn, direction_modifier = Left\<rparr>
           \<lparr>type = Turn, direction_modifier = Left\<rparr> True =
     (True, \<lparr>type = Turn, direction_modifier = SlightLeft\<rparr>) \<and>
   resolve \<lparr>type = Turn, direction_modifier = Left\<rparr>
           \<lparr>type = Turn, direction_modifier = SlightLeft\<rparr> True =
     (False, \<lparr>type = Turn, direction_modifier = Left\<rparr>) \<and>
   resolve \<lparr>type = Turn, direction_modifier = Straight\<rparr>
           \<lparr>type = Turn, direction_modifier = Left\<rparr> False =
     (False, \<lparr>type = Turn, direction_modifier = Straight\<rparr>)"
  using resolve_spec [of SlightLeft True "\<lparr>type = Turn, direction_modifier = Left\<rparr>"
                         "\<lparr>type = Turn, direction_modifier = Left\<rparr>"]
    resolve_spec [of SlightLeft True "\<lparr>type = Turn, direction_modifier = Left\<rparr>"
                     "\<lparr>type = Turn, direction_modifier = SlightLeft\<rparr>"]
    resolve_spec [of Straight False "\<lparr>type = Turn, direction_modifier = Straight\<rparr>"
                     "\<lparr>type = Turn, direction_modifier = Left\<rparr>"]
  by (simp add: shiftCW_values shiftCCW_values)

subsection \<open>No division by zero in the confidence\<close>

text \<open>
  Claim C9. \<^verbatim>\<open>getTurnConfidence\<close> returns a value for every angle and every instruction:
  the only modifier whose entry in the table of deviations is 0 is UTurn, which the guard
  at the start of the function answers with 1; past the guard the divisor is strictly
  positive and the checked division yields a quotient.
\<close>

theorem getTurnConfidence_total:
  "(\<exists>c. getTurnConfidence angle instruction = Some c) \<and>
   (deviations ! modifier_index m = 0 \<longleftrightarrow> m = UTurn) \<and>
   (isBasic (type instruction) \<and> direction_modifier instruction \<noteq> UTurn \<longrightarrow>
      0 < deviations ! modifier_index (direction_modifier instruction) \<and>
      divide_checked (getAngularPenalty angle (direction_modifier instruction))
        (deviations ! modifier_index (direction_modifier instruction)) \<noteq> None)"
proof (intro conjI impI)
  show zero: "deviations ! modifier_index m = 0 \<longleftrightarrow> m = UTurn"
    by (cases m) (simp_all add: deviations_def)
  show "\<exists>c. getTurnConfidence angle instruction = Some c"
  proof (cases "\<not> isBasic (type instruction) \<or> direction_modifier instruction = UTurn")
    case True
    then show ?thesis
      by (simp add: getTurnConfidence_def)
  next
    case False
    then have "deviations ! modifier_index (direction_modifier instruction) \<noteq> 0"
      using deviations_positive [of "direction_modifier instruction"]
      by simp
    with False show ?thesis
      by (simp add: getTurnConfidence_def Let_def divide_checked_def)
  qed
next
  assume basic: "isBasic (type instruction) \<and> direction_modifier instruction \<noteq> UTurn"
  then show pos: "0 < deviations ! modifier_index (direction_modifier instruction)"
    by (simp add: deviations_positive)
  then show "divide_checked (getAngularPenalty angle (direction_modifier instruction))
        (deviations ! modifier_index (direction_modifier instruction)) \<noteq> None"
    by (simp add: divide_checked_def)
qed

theorem getTurnConfidence_total_witness:
  "isBasic (type \<lparr>type = EndOfRoad, direction_modifier = Straight\<rparr>) \<and>
   direction_modifier \<lparr>type = EndOfRoad, direction_modifier = Straight\<rparr> \<noteq> UTurn \<and>
   (0::real) < deviations ! modifier_index Straight \<and>
   (\<exists>c. getTurnConfidence 200 \<lparr>type = EndOfRoad, direction_modifier = Straight\<rparr> = Some c)"
  using getTurnConfidence_total
      [of 200 "\<lparr>type = EndOfRoad, direction_modifier = Straight\<rparr>" Straight]
  by (simp add: isBasic_def)

subsection \<open>Distinct modifiers\<close>

lemma forcedShiftCW_values:
  "forcedShiftCW UTurn = SharpLeft" "forcedShiftCW SharpRight = UTurn"
  "forcedShiftCW Right = SharpRight" "forcedShiftCW SlightRight = Right"
  "forcedShiftCW Straight = SlightRight" "forcedShiftCW SlightLeft = Straight"
  "forcedShiftCW Left = SlightLeft" "forcedShiftCW SharpLeft = Left"
  by (simp_all add: forcedShiftCW_def num_direction_modifiers_def modifier_of_index_def)

lemma forcedShiftCCW_values:
  "forcedShiftCCW UTurn = SharpRight" "forcedShiftCCW SharpRight = Right"
  "forcedShiftCCW Right = SlightRight" "forcedShiftCCW SlightRight = Straight"
  "forcedShiftCCW Straight = SlightLeft" "forcedShiftCCW SlightLeft = Left"
  "forcedShiftCCW Left = SharpLeft" "forcedShiftCCW SharpLeft = UTurn"
  by (simp_all add: forcedShiftCCW_def num_direction_modifiers_def modifier_of_index_def)

lemma isDistinct_index:
  "isDistinct m n \<longleftrightarrow>
     modifier_index n \<noteq> (modifier_index m + 1) mod 8 \<and>
     modifier_index m \<noteq> (modifier_index n + 1) mod 8"
  by (auto simp add: isDistinct_def num_direction_modifiers_def)

lemma isDistinct_shifts:
  "isDistinct m n \<longleftrightarrow> n \<noteq> forcedShiftCCW m \<and> n \<noteq> forcedShiftCW m"
  by (cases m; cases n)
    (simp_all add: isDistinct_index forcedShiftCW_values forcedShiftCCW_values)

text \<open>
  Claim C10. \<^verbatim>\<open>isDistinct(m, m)\<close> is true for every modifier. Two modifiers are reported
  as not distinct exactly when their indices are one apart modulo 8, in either rotation;
  for each \<open>m\<close> these are two different modifiers, the two forced shifts of \<open>m\<close>.
\<close>

theorem isDistinct_adjacent:
  "isDistinct m m \<and>
   (\<not> isDistinct m n \<longleftrightarrow>
      modifier_index n = (modifier_index m + 1) mod 8 \<or>
      modifier_index n = (modifier_index m + 7) mod 8) \<and>
   {n. \<not> isDistinct m n} = {forcedShiftCCW m, forcedShiftCW m} \<and>
   forcedShiftCCW m \<noteq> forcedShiftCW m"
proof (intro conjI)
  show "isDistinct m m"
    by (cases m) (simp_all add: isDistinct_index)
  show "\<not> isDistinct m n \<longleftrightarrow>
      modifier_index n = (modifier_index m + 1) mod 8 \<or>
      modifier_index n = (modifier_index m + 7) mod 8"
    by (cases m; cases n) (simp_all add: isDistinct_index)
  show "{n. \<not> isDistinct m n} = {forcedShiftCCW m, forcedShiftCW m}"
    by (auto simp add: isDistinct_shifts)
  show "forcedShiftCCW m \<noteq> forcedShiftCW m"
    by (cases m) (simp_all add: forcedShiftCW_values forcedShiftCCW_values)
qed

subsection \<open>The representative coordinate of an uncompressed edge\<close>

lemma node_at_in_range: "n < length query_nodes \<Longrightarrow> node_at query_nodes n = Some (query_nodes ! n)"
  by (simp add: node_at_def)

text \<open>
  Claim C7. When the container has no entry for the edge, \<^verbatim>\<open>getRepresentativeCoordinate\<close>
  returns the coordinate of the node chosen by the flag: \<^verbatim>\<open>from_node\<close> when the edge is
  traversed in reverse, \<^verbatim>\<open>to_node\<close> otherwise (nothing is returned when that node is
  outside the vector of nodes). This is the endpoint where the traversal ends: on an edge
  with a stored geometry the walk starts at the other endpoint and the same node is the
  final coordinate. With \<^verbatim>\<open>from\<close> at (0, 0), \<^verbatim>\<open>to\<close> at (0, 1) and a forward traversal
  the result is (0, 1).
\<close>

theorem getRepresentativeCoordinate_uncompressed:
  "(\<not> HasEntryForID compressed_geometries via_edge_id \<longrightarrow>
      getRepresentativeCoordinate haversineDistance interpolateLinear from_node to_node
          via_edge_id traverse_in_reverse compressed_geometries query_nodes =
        map_option extractCoordinateFromNode
          (node_at query_nodes (if traverse_in_reverse then from_node else to_node))) \<and>
   (\<not> HasEntryForID compressed_geometries via_edge_id \<and>
    from_node < length query_nodes \<and> to_node < length query_nodes \<longrightarrow>
      getRepresentativeCoordinate haversineDistance interpolateLinear from_node to_node
          via_edge_id traverse_in_reverse compressed_geometries query_nodes =
        Some \<lparr>lon = QueryNode.lon (query_nodes ! (if traverse_in_reverse then from_node else to_node)),
              lat = QueryNode.lat (query_nodes ! (if traverse_in_reverse then from_node else to_node))\<rparr>) \<and>
   (compressed_geometries via_edge_id = Some geometry \<and>
    from_node < length query_nodes \<and> to_node < length query_nodes \<longrightarrow>
      getRepresentativeCoordinate haversineDistance interpolateLinear from_node to_node
          via_edge_id traverse_in_reverse compressed_geometries query_nodes =
        getCoordinateFromCompressedRange haversineDistance interpolateLinear
          (extractCoordinateFromNode
             (query_nodes ! (if traverse_in_reverse then to_node else from_node)))
          (if traverse_in_reverse then rev geometry else geometry)
          (extractCoordinateFromNode
             (query_nodes ! (if traverse_in_reverse then from_node else to_node)))
          query_nodes) \<and>
   getRepresentativeCoordinate haversineDistance interpolateLinear 0 1 via_edge_id False
       Map.empty [\<lparr>QueryNode.lon = 0, lat = 0\<rparr>, \<lparr>QueryNode.lon = 0, lat = 1\<rparr>] =
     Some \<lparr>lon = 0, lat = 1\<rparr>"
proof (intro conjI impI)
  show "getRepresentativeCoordinate haversineDistance interpolateLinear 0 1 via_edge_id False
       Map.empty [\<lparr>QueryNode.lon = 0, lat = 0\<rparr>, \<lparr>QueryNode.lon = 0, lat = 1\<rparr>] =
     Some \<lparr>lon = 0, lat = 1\<rparr>"
    by (simp add: getRepresentativeCoordinate_def HasEntryForID_def node_at_def
        extractCoordinateFromNode_def)
next
  assume "\<not> HasEntryForID compressed_geometries via_edge_id"
  then show "getRepresentativeCoordinate haversineDistance interpolateLinear from_node to_node
          via_edge_id traverse_in_reverse compressed_geometries query_nodes =
        map_option extractCoordinateFromNode
          (node_at query_nodes (if traverse_in_reverse then from_node else to_node))"
    by (simp add: getRepresentativeCoordinate_def)
next
  assume "\<not> HasEntryForID compressed_geometries via_edge_id \<and>
    from_node < length query_nodes \<and> to_node < length query_nodes"
  then show "getRepresentativeCoordinate haversineDistance interpolateLinear from_node to_node
          via_edge_id traverse_in_reverse compressed_geometries query_nodes =
        Some \<lparr>lon = QueryNode.lon (query_nodes ! (if traverse_in_reverse then from_node else to_node)),
              lat = QueryNode.lat (query_nodes ! (if traverse_in_reverse then from_node else to_node))\<rparr>"
    by (simp add: getRepresentativeCoordinate_def node_at_in_range extractCoordinateFromNode_def)
next
  assume "compressed_geometries via_edge_id = Some geometry \<and>
    from_node < length query_nodes \<and> to_node < length query_nodes"
  then show "getRepresentativeCoordinate haversineDistance interpolateLinear from_node to_node
          via_edge_id traverse_in_reverse compressed_geometries query_nodes =
        getCoordinateFromCompressedRange haversineDistance interpolateLinear
          (extractCoordinateFromNode
             (query_nodes ! (if traverse_in_reverse then to_node else from_node)))
          (if traverse_in_reverse then rev geometry else geometry)
          (extractCoordinateFromNode
             (query_nodes ! (if traverse_in_reverse then from_node else to_node)))
          query_nodes"
    by (simp add: getRepresentativeCoordinate_def HasEntryForID_def GetBucketReference_def
        node_at_in_range Let_def)
qed

theorem getRepresentativeCoordinate_uncompressed_witness:
  "\<not> HasEntryForID Map.empty 7 \<and>
   getRepresentativeCoordinate (\<lambda>a b. 0) (\<lambda>f a b. a) 0 1 7 True Map.empty
       [\<lparr>QueryNode.lon = 3, lat = 4\<rparr>, \<lparr>QueryNode.lon = 5, lat = 6\<rparr>] =
     Some \<lparr>lon = 3, lat = 4\<rparr> \<and>
   getRepresentativeCoordinate (\<lambda>a b. 0) (\<lambda>f a b. a) 0 1 7 False Map.empty
       [\<lparr>QueryNode.lon = 3, lat = 4\<rparr>, \<lparr>QueryNode.lon = 5, lat = 6\<rparr>] =
     Some \<lparr>lon = 5, lat = 6\<rparr>"
  using getRepresentativeCoordinate_uncompressed
      [of Map.empty 7 "\<lambda>a b. 0" "\<lambda>f a b. a" 0 1 True
          "[\<lparr>QueryNode.lon = 3, lat = 4\<rparr>, \<lparr>QueryNode.lon = 5, lat = 6\<rparr>]"]
    getRepresentativeCoordinate_uncompressed
      [of Map.empty 7 "\<lambda>a b. 0" "\<lambda>f a b. a" 0 1 False
          "[\<lparr>QueryNode.lon = 3, lat = 4\<rparr>, \<lparr>QueryNode.lon = 5, lat = 6\<rparr>]"]
  by (simp add: HasEntryForID_def node_at_def extractCoordinateFromNode_def)

subsection \<open>Announcing a change of name\<close>

lemma split_name_Main_St_A1: "split_name ''Main St (A1)'' = Some (''Main St'', ''A1'')"
  by (simp add: split_name_def npos_def substr_def size_t_minus_def)

lemma split_name_plain:
  "split_name ''Main St'' = Some (''Main St'', [])"
  "split_name ''Oak St'' = Some (''Oak St'', [])"
  "split_name [] = Some ([], [])"
  by (simp_all add: split_name_def npos_def)

text \<open>
  Claim C8. \<^verbatim>\<open>requiresNameAnnounced\<close> is false from "Main St (A1)" to "Main St (A1)",
  true from "Main St" to "Oak St", and false from "Main St (A1)" to the empty string.
\<close>

theorem requiresNameAnnounced_examples:
  "requiresNameAnnounced ''Main St (A1)'' ''Main St (A1)'' = Some False \<and>
   requiresNameAnnounced ''Main St'' ''Oak St'' = Some True \<and>
   requiresNameAnnounced ''Main St (A1)'' [] = Some False"
  by (simp add: requiresNameAnnounced_def split_name_Main_St_A1 split_name_plain npos_def)

theorem requiresNameAnnounced_examples_witness:
  "requiresNameAnnounced ''Main St'' ''Oak St'' \<noteq> Some False \<and>
   requiresNameAnnounced ''Main St (A1)'' [] \<noteq> Some True"
  using requiresNameAnnounced_examples
  by simp

end
